theory Spec2Isabelle
  imports Complex_Main "HOL-Library.Word"
begin

section \<open>The world the generator runs in\<close>

text \<open>
  genfiles.py draws from Python's global random source (\<open>random\<close>, \<open>os.urandom\<close>),
  calls the filesystem (\<open>os.makedirs\<close>, \<open>open\<close>/\<open>write\<close>) and prints. None of the three
  is code of the program, so each is an explicit part of the state:
  \<^item> the random source is an arbitrary infinite sequence of raw draws and a read position;
  \<^item> the filesystem is the trace of the calls made on it, each with its outcome, and an
    arbitrary fault oracle that decides, from the number of calls made so far and the call
    itself, whether the call raises \<open>OSError\<close> (of which \<open>IOError\<close> is an alias in
    Python 3) and with which cause;
  \<^item> the console is the list of lines printed so far (a formatted number is kept as the
    number: the rounding of \<open>:.2f\<close> and of floating point is left out);
  \<^item> \<open>divisions\<close> lists the true divisions evaluated by the statistics reports, dividend
    and divisor, so that "divides by nothing" and "never divides by zero" can be stated.
\<close>

type_synonym byte = "8 word"

datatype error =
    ValueError
  | IndexError
  | OSError string
  | ZeroDivisionError

datatype fs_op =
    Makedirs string
  | Write_file string "byte list"

datatype event =
    Creating_files_in string
  | Created_fixed_file string int
  | Error_writing string string
  | Creating_structured string
  | Warning_min_larger int int
  | Created_subdir string
  | Created_file string bool int
  | Finished_simple string
  | Finished_structured string
  | Error_simple error
  | Error_structured error
  | Stat_text string
  | Stat_int string int
  | Stat_num string rat

record world =
  rand_src :: "nat \<Rightarrow> nat"
  rand_pos :: nat
  io_fault :: "nat \<Rightarrow> fs_op \<Rightarrow> string option"
  io_trace :: "(fs_op \<times> string option) list"
  out :: "event list"
  divisions :: "(rat \<times> rat) list"

type_synonym 'a result = "(error + 'a) \<times> world"

definition print :: "event \<Rightarrow> world \<Rightarrow> world" where
  "print e w = w\<lparr>out := out w @ [e]\<rparr>"

subsection \<open>Python's random module and os.urandom\<close>

definition draw :: "world \<Rightarrow> nat \<times> world" where
  "draw w = (rand_src w (rand_pos w), w\<lparr>rand_pos := Suc (rand_pos w)\<rparr>)"

text \<open>\<open>random._randbelow(n)\<close>, for \<open>n > 0\<close>: some value below \<open>n\<close>.\<close>

definition randbelow :: "nat \<Rightarrow> world \<Rightarrow> nat \<times> world" where
  "randbelow n w = (case draw w of (r, w1) \<Rightarrow> (r mod n, w1))"

text \<open>\<open>random.randint(a, b)\<close> is \<open>a + _randbelow(b - a + 1)\<close>, and raises ValueError on
  an empty range.\<close>

definition randint :: "int \<Rightarrow> int \<Rightarrow> world \<Rightarrow> int result" where
  "randint a b w =
     (if b < a then (Inl ValueError, w)
      else (case randbelow (nat (b - a + 1)) w of (r, w1) \<Rightarrow> (Inr (a + int r), w1)))"

text \<open>\<open>random.choice(seq)\<close> is \<open>seq[_randbelow(len(seq))]\<close>, and raises IndexError on an
  empty sequence.\<close>

definition choice :: "'a list \<Rightarrow> world \<Rightarrow> 'a result" where
  "choice xs w =
     (if xs = [] then (Inl IndexError, w)
      else (case randbelow (length xs) w of (r, w1) \<Rightarrow> (Inr (xs ! r), w1)))"

fun random_bytes :: "nat \<Rightarrow> world \<Rightarrow> byte list \<times> world" where
  "random_bytes 0 w = ([], w)"
| "random_bytes (Suc n) w =
     (case draw w of (r, w1) \<Rightarrow>
        (case random_bytes n w1 of (bs, w2) \<Rightarrow> (of_nat r # bs, w2)))"

text \<open>\<open>os.urandom(n)\<close> raises ValueError on a negative argument.\<close>

definition urandom :: "int \<Rightarrow> world \<Rightarrow> (byte list) result" where
  "urandom n w =
     (if n < 0 then (Inl ValueError, w)
      else (case random_bytes (nat n) w of (bs, w1) \<Rightarrow> (Inr bs, w1)))"

subsection \<open>Strings\<close>

text \<open>\<open>string.ascii_letters + string.digits + ' \n\t'\<close>: lower case first.\<close>

definition ascii_lowercase :: string where
  "ascii_lowercase = ''abcdefghijklmnopqrstuvwxyz''"

definition ascii_uppercase :: string where
  "ascii_uppercase = ''ABCDEFGHIJKLMNOPQRSTUVWXYZ''"

definition ascii_letters :: string where
  "ascii_letters = ascii_lowercase @ ascii_uppercase"

definition digits :: string where
  "digits = ''0123456789''"

definition characters :: string where
  "characters = ascii_letters @ digits @ [CHR '' '', CHR 0x0A, CHR 0x09]"

text \<open>\<open>str.encode('utf-8')\<close> on code points below 256, which is what a \<open>char\<close> holds:
  one byte below 128, two bytes from 128 on.\<close>

definition encode_char :: "char \<Rightarrow> byte list" where
  "encode_char c =
     (let cp = (of_char c :: nat) in
      if cp < 128 then [of_nat cp]
      else [of_nat (192 + cp div 64), of_nat (128 + cp mod 64)])"

definition encode_utf8 :: "string \<Rightarrow> byte list" where
  "encode_utf8 s = concat (map encode_char s)"

subsection \<open>generate_random_data\<close>

text \<open>The generator expression \<open>random.choice(characters) for _ in range(size_bytes)\<close>,
  joined: one choice per iteration; \<open>range\<close> of a negative number is empty.\<close>

fun random_text :: "nat \<Rightarrow> world \<Rightarrow> string result" where
  "random_text 0 w = (Inr [], w)"
| "random_text (Suc n) w =
     (case choice characters w of
        (Inl e, w1) \<Rightarrow> (Inl e, w1)
      | (Inr c, w1) \<Rightarrow>
          (case random_text n w1 of
             (Inl e, w2) \<Rightarrow> (Inl e, w2)
           | (Inr cs, w2) \<Rightarrow> (Inr (c # cs), w2)))"

definition generate_random_data :: "int \<Rightarrow> bool \<Rightarrow> world \<Rightarrow> (byte list) result" where
  "generate_random_data size_bytes is_binary w =
     (if is_binary then urandom size_bytes w
      else (case random_text (nat size_bytes) w of
              (Inl e, w1) \<Rightarrow> (Inl e, w1)
            | (Inr txt, w1) \<Rightarrow> (Inr (encode_utf8 txt), w1)))"

subsection \<open>Sequencing\<close>

text \<open>An exception leaves through \<open>Inl\<close>, with the world as it was when it was raised.\<close>

definition return :: "'a \<Rightarrow> world \<Rightarrow> 'a result" where
  "return x w = (Inr x, w)"

definition and_then :: "(world \<Rightarrow> 'a result) \<Rightarrow> ('a \<Rightarrow> world \<Rightarrow> 'b result) \<Rightarrow> world \<Rightarrow> 'b result" where
  "and_then m f w = (case m w of (Inl e, w1) \<Rightarrow> (Inl e, w1) | (Inr x, w1) \<Rightarrow> f x w1)"

definition say :: "event \<Rightarrow> world \<Rightarrow> unit result" where
  "say e w = (Inr (), print e w)"

subsection \<open>The filesystem\<close>

definition fs_call :: "fs_op \<Rightarrow> world \<Rightarrow> unit result" where
  "fs_call c w =
     (case io_fault w (length (io_trace w)) c of
        None \<Rightarrow> (Inr (), w\<lparr>io_trace := io_trace w @ [(c, None)]\<rparr>)
      | Some cause \<Rightarrow> (Inl (OSError cause), w\<lparr>io_trace := io_trace w @ [(c, Some cause)]\<rparr>))"

text \<open>\<open>os.makedirs(path, exist_ok=True)\<close>.\<close>

definition makedirs :: "string \<Rightarrow> world \<Rightarrow> unit result" where
  "makedirs path = fs_call (Makedirs path)"

text \<open>\<open>with open(file_path, "wb") as f: f.write(data)\<close>.\<close>

definition write_file :: "string \<Rightarrow> byte list \<Rightarrow> world \<Rightarrow> unit result" where
  "write_file file_path data = fs_call (Write_file file_path data)"

text \<open>\<open>os.path.join\<close> of two components (POSIX).\<close>

definition path_join :: "string \<Rightarrow> string \<Rightarrow> string" where
  "path_join a b =
     (if b \<noteq> [] \<and> hd b = CHR ''/'' then b
      else if a = [] \<or> last a = CHR ''/'' then a @ b
      else a @ ''/'' @ b)"

subsection \<open>The format \<open>{i:03d}\<close>\<close>

fun dec :: "nat \<Rightarrow> string" where
  "dec n = (if n < 10 then [char_of (48 + n)] else dec (n div 10) @ [char_of (48 + n mod 10)])"

declare dec.simps [simp del]

definition zfill :: "nat \<Rightarrow> string \<Rightarrow> string" where
  "zfill k s = replicate (k - length s) CHR ''0'' @ s"

definition fmt_03d :: "int \<Rightarrow> string" where
  "fmt_03d i = (if i < 0 then CHR ''-'' # zfill 2 (dec (nat (- i))) else zfill 3 (dec (nat i)))"

subsection \<open>Statistics\<close>

text \<open>The dictionary of flat mode has the first two keys, the dictionary of structured mode
  all six.\<close>

record simple_stats =
  total_files :: int
  total_size_bytes :: int

record stats = simple_stats +
  binary_files :: int
  text_files :: int
  binary_size_bytes :: int
  text_size_bytes :: int

definition empty_simple_stats :: simple_stats where
  "empty_simple_stats = \<lparr>total_files = 0, total_size_bytes = 0\<rparr>"

definition empty_stats :: stats where
  "empty_stats = \<lparr>total_files = 0, total_size_bytes = 0, binary_files = 0, text_files = 0,
     binary_size_bytes = 0, text_size_bytes = 0\<rparr>"

subsection \<open>create_files_simple\<close>

definition fixed_file_name :: "int \<Rightarrow> string" where
  "fixed_file_name i = ''fixed_file_'' @ fmt_03d i @ ''.bin''"

text \<open>The body of the loop, for one \<open>i\<close>.\<close>

definition simple_body :: "string \<Rightarrow> int \<Rightarrow> int \<Rightarrow> simple_stats \<Rightarrow> world \<Rightarrow> simple_stats result" where
  "simple_body root_dir file_size_bytes i st w =
     (let file_name = fixed_file_name i;
          file_path = path_join root_dir file_name
      in case generate_random_data file_size_bytes True w of
           (Inl e, w1) \<Rightarrow> (Inl e, w1)
         | (Inr data, w1) \<Rightarrow>
             (case write_file file_path data w1 of
                (Inr u, w2) \<Rightarrow>
                  (Inr (st\<lparr>total_files := total_files st + 1,
                           total_size_bytes := total_size_bytes st + file_size_bytes\<rparr>),
                   print (Created_fixed_file file_name file_size_bytes) w2)
              | (Inl (OSError e), w2) \<Rightarrow> (Inr st, print (Error_writing file_name e) w2)
              | (Inl e, w2) \<Rightarrow> (Inl e, w2)))"

fun simple_loop :: "string \<Rightarrow> int \<Rightarrow> int list \<Rightarrow> simple_stats \<Rightarrow> world \<Rightarrow> simple_stats result" where
  "simple_loop root_dir file_size_bytes [] st w = (Inr st, w)"
| "simple_loop root_dir file_size_bytes (i # rest) st w =
     (case simple_body root_dir file_size_bytes i st w of
        (Inl e, w1) \<Rightarrow> (Inl e, w1)
      | (Inr st1, w1) \<Rightarrow> simple_loop root_dir file_size_bytes rest st1 w1)"

definition create_files_simple :: "string \<Rightarrow> int \<Rightarrow> int \<Rightarrow> world \<Rightarrow> simple_stats result" where
  "create_files_simple root_dir num_files size_kb w =
     (let file_size_bytes = size_kb * 1024;
          w1 = print (Creating_files_in root_dir) w
      in case makedirs root_dir w1 of
           (Inl e, w2) \<Rightarrow> (Inl e, w2)
         | (Inr u, w2) \<Rightarrow>
             simple_loop root_dir file_size_bytes [1..num_files] empty_simple_stats w2)"

subsection \<open>create_structured_files\<close>

definition subdir_name :: "int \<Rightarrow> string" where
  "subdir_name i = ''subdir_'' @ fmt_03d i"

definition file_name :: "int \<Rightarrow> bool \<Rightarrow> string" where
  "file_name j is_binary = ''file_'' @ fmt_03d j @ (if is_binary then ''.bin'' else ''.txt'')"

text \<open>"Determine file type".\<close>

definition pick_is_binary :: "string \<Rightarrow> world \<Rightarrow> bool result" where
  "pick_is_binary file_type w =
     (if file_type = ''bin'' then (Inr True, w)
      else if file_type = ''txt'' then (Inr False, w)
      else choice [True, False] w)"

text \<open>"Update stats".\<close>

definition update_stats :: "bool \<Rightarrow> int \<Rightarrow> stats \<Rightarrow> stats" where
  "update_stats is_binary file_size st =
     (let st1 = st\<lparr>total_files := total_files st + 1,
                   total_size_bytes := total_size_bytes st + file_size\<rparr>
      in if is_binary
         then st1\<lparr>binary_files := binary_files st1 + 1,
                  binary_size_bytes := binary_size_bytes st1 + file_size\<rparr>
         else st1\<lparr>text_files := text_files st1 + 1,
                  text_size_bytes := text_size_bytes st1 + file_size\<rparr>)"

text \<open>The body of the inner loop, for one \<open>j\<close>.\<close>

definition file_body :: "string \<Rightarrow> string \<Rightarrow> int \<Rightarrow> int \<Rightarrow> int \<Rightarrow> stats \<Rightarrow> world \<Rightarrow> stats result" where
  "file_body subdir_path file_type min_size_bytes max_size_bytes j st w =
     (case pick_is_binary file_type w of
        (Inl e, w1) \<Rightarrow> (Inl e, w1)
      | (Inr is_binary, w1) \<Rightarrow>
     (case randint min_size_bytes max_size_bytes w1 of
        (Inl e, w2) \<Rightarrow> (Inl e, w2)
      | (Inr file_size, w2) \<Rightarrow>
     (let fname = file_name j is_binary;
          file_path = path_join subdir_path fname
      in case generate_random_data file_size is_binary w2 of
           (Inl e, w3) \<Rightarrow> (Inl e, w3)
         | (Inr data, w3) \<Rightarrow>
             (case write_file file_path data w3 of
                (Inr u, w4) \<Rightarrow>
                  (Inr (update_stats is_binary file_size st),
                   print (Created_file fname is_binary file_size) w4)
              | (Inl (OSError e), w4) \<Rightarrow> (Inr st, print (Error_writing fname e) w4)
              | (Inl e, w4) \<Rightarrow> (Inl e, w4)))))"

fun files_loop :: "string \<Rightarrow> string \<Rightarrow> int \<Rightarrow> int \<Rightarrow> int list \<Rightarrow> stats \<Rightarrow> world \<Rightarrow> stats result" where
  "files_loop subdir_path file_type min_size_bytes max_size_bytes [] st w = (Inr st, w)"
| "files_loop subdir_path file_type min_size_bytes max_size_bytes (j # rest) st w =
     (case file_body subdir_path file_type min_size_bytes max_size_bytes j st w of
        (Inl e, w1) \<Rightarrow> (Inl e, w1)
      | (Inr st1, w1) \<Rightarrow>
          files_loop subdir_path file_type min_size_bytes max_size_bytes rest st1 w1)"

text \<open>The body of the outer loop, for one \<open>i\<close>.\<close>

definition subdir_body :: "string \<Rightarrow> int \<Rightarrow> string \<Rightarrow> int \<Rightarrow> int \<Rightarrow> int \<Rightarrow> stats \<Rightarrow> world \<Rightarrow> stats result" where
  "subdir_body root_dir M file_type min_size_bytes max_size_bytes i st w =
     (let subdir_path = path_join root_dir (subdir_name i)
      in case makedirs subdir_path w of
           (Inl e, w1) \<Rightarrow> (Inl e, w1)
         | (Inr u, w1) \<Rightarrow>
             (case randint 1 M (print (Created_subdir (subdir_name i)) w1) of
                (Inl e, w2) \<Rightarrow> (Inl e, w2)
              | (Inr num_files, w2) \<Rightarrow>
                  files_loop subdir_path file_type min_size_bytes max_size_bytes
                    [1..num_files] st w2))"

fun subdirs_loop :: "string \<Rightarrow> int \<Rightarrow> string \<Rightarrow> int \<Rightarrow> int \<Rightarrow> int list \<Rightarrow> stats \<Rightarrow> world \<Rightarrow> stats result" where
  "subdirs_loop root_dir M file_type min_size_bytes max_size_bytes [] st w = (Inr st, w)"
| "subdirs_loop root_dir M file_type min_size_bytes max_size_bytes (i # rest) st w =
     (case subdir_body root_dir M file_type min_size_bytes max_size_bytes i st w of
        (Inl e, w1) \<Rightarrow> (Inl e, w1)
      | (Inr st1, w1) \<Rightarrow>
          subdirs_loop root_dir M file_type min_size_bytes max_size_bytes rest st1 w1)"

definition create_structured_files :: "string \<Rightarrow> int \<Rightarrow> int \<Rightarrow> int \<Rightarrow> string \<Rightarrow> int \<Rightarrow> world \<Rightarrow> stats result" where
  "create_structured_files root_dir N M K file_type min_size_bytes w =
     (let max_size_bytes = K * 1024;
          w1 = print (Creating_structured root_dir) w
      in case makedirs root_dir w1 of
           (Inl e, w2) \<Rightarrow> (Inl e, w2)
         | (Inr u, w2) \<Rightarrow>
             (if min_size_bytes > max_size_bytes
              then subdirs_loop root_dir M file_type max_size_bytes max_size_bytes [1..N]
                     empty_stats (print (Warning_min_larger min_size_bytes max_size_bytes) w2)
              else subdirs_loop root_dir M file_type min_size_bytes max_size_bytes [1..N]
                     empty_stats w2))"

subsection \<open>The statistics reports\<close>

text \<open>Python's \<open>/\<close>: ZeroDivisionError on a zero divisor.\<close>

definition truediv :: "rat \<Rightarrow> rat \<Rightarrow> world \<Rightarrow> rat result" where
  "truediv a b w =
     (if b = 0 then (Inl ZeroDivisionError, w)
      else (Inr (a / b), w\<lparr>divisions := divisions w @ [(a, b)]\<rparr>))"

text \<open>A run of \<open>print\<close> calls.\<close>

definition say_lines :: "event list \<Rightarrow> world \<Rightarrow> unit result" where
  "say_lines es w = (Inr (), w\<lparr>out := out w @ es\<rparr>)"

definition rule_line :: event where
  "rule_line = Stat_text (replicate 30 CHR ''-'')"

definition print_structured_statistics :: "stats \<Rightarrow> world \<Rightarrow> unit result" where
  "print_structured_statistics st =
     (if total_files st = 0 then say (Stat_text ''No files were generated.'')
      else
        and_then (if total_files st > 0
                  then and_then (truediv (of_int (total_size_bytes st)) (of_int (total_files st)))
                         (\<lambda>q. truediv q 1024)
                  else return 0) (\<lambda>avg_total_size.
        and_then (if binary_files st > 0
                  then and_then (truediv (of_int (binary_size_bytes st)) (of_int (binary_files st)))
                         (\<lambda>q. truediv q 1024)
                  else return 0) (\<lambda>avg_binary_size.
        and_then (if text_files st > 0
                  then and_then (truediv (of_int (text_size_bytes st)) (of_int (text_files st)))
                         (\<lambda>q. truediv q 1024)
                  else return 0) (\<lambda>avg_text_size.
        and_then (truediv (of_int (total_size_bytes st)) (1024 * 1024)) (\<lambda>total_size_mb.
        and_then (truediv (of_int (binary_size_bytes st)) (1024 * 1024)) (\<lambda>binary_size_mb.
        and_then (truediv (of_int (text_size_bytes st)) (1024 * 1024)) (\<lambda>text_size_mb.
        say_lines
          [Stat_text ''--- Structured Generation Statistics ---'',
           Stat_int ''Total files generated'' (total_files st),
           Stat_num ''Total size MB'' total_size_mb,
           rule_line,
           Stat_int ''Binary files'' (binary_files st),
           Stat_num ''Total size (Binary) MB'' binary_size_mb,
           Stat_num ''Average size (Binary) KB'' avg_binary_size,
           rule_line,
           Stat_int ''Text files'' (text_files st),
           Stat_num ''Total size (Text) MB'' text_size_mb,
           Stat_num ''Average size (Text) KB'' avg_text_size,
           rule_line])))))))"

definition print_simple_statistics :: "simple_stats \<Rightarrow> world \<Rightarrow> unit result" where
  "print_simple_statistics st =
     and_then (truediv (of_int (total_size_bytes st)) (1024 * 1024)) (\<lambda>total_size_mb.
     and_then (if total_files st > 0
               then truediv total_size_mb (of_int (total_files st))
               else return 0) (\<lambda>avg_size_mb.
     say_lines
       [Stat_text ''--- Simple File Creation Statistics ---'',
        Stat_int ''Total files created'' (total_files st),
        Stat_text ''File type: Binary (Fixed Size)'',
        Stat_num ''Total size MB'' total_size_mb,
        Stat_num ''Average file size MB'' avg_size_mb,
        rule_line]))"

subsection \<open>main, after \<open>parse_args\<close>\<close>

text \<open>The namespace that argparse returns: \<open>type=int\<close> makes every count and size an
  integer or absent; \<open>--file-create\<close> takes two.\<close>

record parsed_args =
  args_directory :: string
  args_file_create :: "(int \<times> int) option"
  args_n :: "int option"
  args_max_files :: "int option"
  args_max_size_kb :: "int option"
  args_file_type :: "string option"
  args_stat :: bool

datatype outcome = Returned | SystemExit int string

text \<open>\<open>parser.error(message)\<close> writes the usage and the message to stderr and exits
  with status 2.\<close>

definition parser_error :: "string \<Rightarrow> world \<Rightarrow> outcome \<times> world" where
  "parser_error message w = (SystemExit 2 message, w)"

definition main :: "parsed_args \<Rightarrow> world \<Rightarrow> outcome \<times> world" where
  "main args w =
     (case args_file_create args of
        Some (N_files, M_size_kb) \<Rightarrow>
          if N_files \<le> 0 \<or> M_size_kb \<le> 0
          then parser_error ''For --file-create, both N (file count) and M (size in KB) must be integers greater than 0.'' w
          else (case and_then (create_files_simple (args_directory args) N_files M_size_kb)
                       (\<lambda>st. and_then (say (Finished_simple (args_directory args)))
                         (\<lambda>u. if args_stat args then print_simple_statistics st
                              else return ())) w of
                  (Inr u, w1) \<Rightarrow> (Returned, w1)
                | (Inl e, w1) \<Rightarrow> (Returned, print (Error_simple e) w1))
      | None \<Rightarrow>
          (case (args_n args, args_max_files args, args_max_size_kb args) of
             (Some n, Some max_files, Some max_size_kb) \<Rightarrow>
               if n \<le> 0 then parser_error ''-n must be an integer greater than 0.'' w
               else if max_files \<le> 0
               then parser_error ''-m/--max-files must be an integer greater than 0.'' w
               else if max_size_kb \<le> 0
               then parser_error ''-k/--max-size-kb must be an integer greater than 0.'' w
               else (case and_then
                            (create_structured_files (args_directory args) n max_files max_size_kb
                               (case args_file_type args of
                                  None \<Rightarrow> ''mix''
                                | Some t \<Rightarrow> if t = [] then ''mix'' else t)
                               100)
                            (\<lambda>st. and_then (say (Finished_structured (args_directory args)))
                              (\<lambda>u. if args_stat args then print_structured_statistics st
                                   else return ())) w of
                       (Inr u, w1) \<Rightarrow> (Returned, w1)
                     | (Inl e, w1) \<Rightarrow> (Returned, print (Error_structured e) w1))
           | _ \<Rightarrow>
               parser_error ''When --file-create is not used, -n, -m, and -k are required for structured generation.'' w))"

section \<open>Vocabulary of the properties\<close>

text \<open>Two worlds to run the program in: one where no filesystem call fails, one where
  every second call on a file fails with "disk full".\<close>

definition quiet_world :: world where
  "quiet_world = \<lparr>rand_src = (\<lambda>i. 7 * i + 3), rand_pos = 0, io_fault = (\<lambda>k c. None),
     io_trace = [], out = [], divisions = []\<rparr>"

definition faulty_world :: world where
  "faulty_world = \<lparr>rand_src = (\<lambda>i. 5 * i + 1), rand_pos = 0,
     io_fault = (\<lambda>k c. case c of Makedirs p \<Rightarrow> None
                            | Write_file p d \<Rightarrow> if even k then Some ''disk full'' else None),
     io_trace = [], out = [], divisions = []\<rparr>"




definition usage_violation :: "parsed_args \<Rightarrow> bool" where
  "usage_violation args =
     (case args_file_create args of
        Some (N_files, M_size_kb) \<Rightarrow> N_files \<le> 0 \<or> M_size_kb \<le> 0
      | None \<Rightarrow>
          (case args_n args of None \<Rightarrow> True | Some n \<Rightarrow> n \<le> 0) \<or>
          (case args_max_files args of None \<Rightarrow> True | Some m \<Rightarrow> m \<le> 0) \<or>
          (case args_max_size_kb args of None \<Rightarrow> True | Some k \<Rightarrow> k \<le> 0))"

definition flat_args :: parsed_args where
  "flat_args = \<lparr>args_directory = ''out'', args_file_create = Some (5, 10), args_n = Some 0,
     args_max_files = None, args_max_size_kb = None, args_file_type = None, args_stat = False\<rparr>"

definition bad_structured_args :: parsed_args where
  "bad_structured_args = \<lparr>args_directory = ''out'', args_file_create = None, args_n = Some 3,
     args_max_files = Some 0, args_max_size_kb = Some 1, args_file_type = None,
     args_stat = False\<rparr>"

text \<open>What the properties say about a run is read off the trace of filesystem calls and the
  console. \<open>attempts_ok f n tr\<close>: the outcome recorded with each call of \<open>tr\<close> is the one
  the fault oracle \<open>f\<close> gives at its position, the first call being number \<open>n\<close>.\<close>

fun attempts_ok :: "(nat \<Rightarrow> fs_op \<Rightarrow> string option) \<Rightarrow> nat \<Rightarrow> (fs_op \<times> string option) list \<Rightarrow> bool" where
  "attempts_ok f n [] = True"
| "attempts_ok f n ((c, r) # tr) = (r = f n c \<and> attempts_ok f (Suc n) tr)"

text \<open>The call writes \<open>n\<close> bytes to the file at \<open>path\<close>.\<close>

fun is_write_of :: "string \<Rightarrow> nat \<Rightarrow> fs_op \<Rightarrow> bool" where
  "is_write_of path n (Write_file p d) = (p = path \<and> length d = n)"
| "is_write_of path n (Makedirs p) = False"

text \<open>The line flat mode prints for file \<open>i\<close>, given how the write went.\<close>

definition fixed_event :: "int \<Rightarrow> int \<Rightarrow> fs_op \<times> string option \<Rightarrow> event" where
  "fixed_event file_size_bytes i a =
     (case snd a of
        None \<Rightarrow> Created_fixed_file (fixed_file_name i) file_size_bytes
      | Some cause \<Rightarrow> Error_writing (fixed_file_name i) cause)"

definition succeeded :: "(fs_op \<times> string option) list \<Rightarrow> (fs_op \<times> string option) list" where
  "succeeded tr = filter (\<lambda>a. snd a = None) tr"

text \<open>The worlds differ at most in the read position of the random source.\<close>

definition same_io :: "world \<Rightarrow> world \<Rightarrow> bool" where
  "same_io w w' =
     (io_trace w' = io_trace w \<and> io_fault w' = io_fault w \<and> out w' = out w \<and>
      rand_src w' = rand_src w \<and> divisions w' = divisions w)"

text \<open>The file-type policy: 'bin' allows binary files only, 'txt' text files only.\<close>

definition type_allowed :: "string \<Rightarrow> bool \<Rightarrow> bool" where
  "type_allowed file_type is_binary =
     (if file_type = ''bin'' then is_binary
      else if file_type = ''txt'' then \<not> is_binary
      else True)"

definition op_size :: "fs_op \<Rightarrow> int" where
  "op_size c = (case c of Write_file p d \<Rightarrow> int (length d) | Makedirs p \<Rightarrow> 0)"

text \<open>The line structured mode prints for file \<open>j\<close> of type \<open>is_binary\<close>, given the write
  and how it went.\<close>

definition file_event :: "int \<Rightarrow> bool \<Rightarrow> fs_op \<times> string option \<Rightarrow> event" where
  "file_event j is_binary a =
     (case snd a of
        None \<Rightarrow> Created_file (file_name j is_binary) is_binary (op_size (fst a))
      | Some cause \<Rightarrow> Error_writing (file_name j is_binary) cause)"

text \<open>\<open>file_attempt dir file_type lo hi j (a, e)\<close>: the call \<open>a\<close> and the line \<open>e\<close> are those
  of file \<open>j\<close> of directory \<open>dir\<close>: a write of between \<open>lo\<close> and \<open>hi\<close> bytes to
  \<open>file_<j>.bin\<close> or \<open>file_<j>.txt\<close>, of a type the policy allows, and its report.\<close>

definition file_attempt_typed :: "bool \<Rightarrow> string \<Rightarrow> string \<Rightarrow> int \<Rightarrow> int \<Rightarrow> int \<Rightarrow> (fs_op \<times> string option) \<times> event \<Rightarrow> bool" where
  "file_attempt_typed is_binary dir file_type lo hi j ae =
     (type_allowed file_type is_binary \<and>
      is_write_of (path_join dir (file_name j is_binary)) (nat (op_size (fst (fst ae))))
        (fst (fst ae)) \<and>
      lo \<le> op_size (fst (fst ae)) \<and> op_size (fst (fst ae)) \<le> hi \<and>
      snd ae = file_event j is_binary (fst ae))"

definition file_attempt :: "string \<Rightarrow> string \<Rightarrow> int \<Rightarrow> int \<Rightarrow> int \<Rightarrow> (fs_op \<times> string option) \<times> event \<Rightarrow> bool" where
  "file_attempt dir file_type lo hi j ae =
     (file_attempt_typed True dir file_type lo hi j ae \<or>
      file_attempt_typed False dir file_type lo hi j ae)"

text \<open>The statistics that a sequence of printed lines stands for: each "Created file" line
  is one update.\<close>

fun tally_event :: "event \<Rightarrow> stats \<Rightarrow> stats" where
  "tally_event (Created_file name is_binary file_size) st = update_stats is_binary file_size st"
| "tally_event e st = st"

definition tally :: "event list \<Rightarrow> stats \<Rightarrow> stats" where
  "tally evs st = foldl (\<lambda>s e. tally_event e s) st evs"

text \<open>One subdirectory: its \<open>makedirs\<close> call and line, then the calls and lines of between 1
  and \<open>M\<close> files, numbered from 1.\<close>

definition subdir_block :: "string \<Rightarrow> int \<Rightarrow> string \<Rightarrow> int \<Rightarrow> int \<Rightarrow> int \<Rightarrow> (fs_op \<times> string option) list \<times> event list \<Rightarrow> bool" where
  "subdir_block root_dir M file_type lo hi i blk =
     (length (fst blk) = length (snd blk) \<and> 1 \<le> length (fst blk) \<and>
      int (length (fst blk)) \<le> M \<and>
      list_all2 (file_attempt (path_join root_dir (subdir_name i)) file_type lo hi)
        [1..int (length (fst blk))] (zip (fst blk) (snd blk)))"

definition block_trace :: "string \<Rightarrow> int \<Rightarrow> (fs_op \<times> string option) list \<times> event list \<Rightarrow> (fs_op \<times> string option) list" where
  "block_trace root_dir i blk = (Makedirs (path_join root_dir (subdir_name i)), None) # fst blk"

definition block_events :: "int \<Rightarrow> (fs_op \<times> string option) list \<times> event list \<Rightarrow> event list" where
  "block_events i blk = Created_subdir (subdir_name i) # snd blk"




section \<open>Properties of the random data\<close>

lemma length_characters: "length characters = 65"
  by (simp add: characters_def ascii_letters_def ascii_lowercase_def ascii_uppercase_def digits_def)


lemma characters_ascii: "c \<in> set characters \<Longrightarrow> (of_char c :: nat) < 128"
  by (auto simp add: characters_def ascii_letters_def ascii_lowercase_def ascii_uppercase_def digits_def)

lemma random_bytes_eq:
  "random_bytes n w =
     (map (\<lambda>i. of_nat (rand_src w (rand_pos w + i))) [0..<n], w\<lparr>rand_pos := rand_pos w + n\<rparr>)"
proof (induction n arbitrary: w)
  case 0
  show ?case by simp
next
  case (Suc n)
  have "map (\<lambda>i. (of_nat (rand_src w (rand_pos w + i)) :: byte)) [0..<Suc n] =
        of_nat (rand_src w (rand_pos w)) #
        map (\<lambda>i. of_nat (rand_src w (Suc (rand_pos w) + i))) [0..<n]"
    by (simp add: upt_conv_Cons map_Suc_upt [symmetric] del: upt_Suc)
  then show ?case
    by (simp add: Suc.IH draw_def del: upt_Suc)
qed

lemma random_text_eq:
  "random_text n w =
     (Inr (map (\<lambda>i. characters ! (rand_src w (rand_pos w + i) mod 65)) [0..<n]),
      w\<lparr>rand_pos := rand_pos w + n\<rparr>)"
proof (induction n arbitrary: w)
  case 0
  show ?case by simp
next
  case (Suc n)
  have "map (\<lambda>i. characters ! (rand_src w (rand_pos w + i) mod 65)) [0..<Suc n] =
        characters ! (rand_src w (rand_pos w) mod 65) #
        map (\<lambda>i. characters ! (rand_src w (Suc (rand_pos w) + i) mod 65)) [0..<n]"
    by (simp add: upt_conv_Cons map_Suc_upt [symmetric] del: upt_Suc)
  moreover have "characters \<noteq> []"
    using length_characters by auto
  ultimately show ?case
    by (simp add: Suc.IH choice_def randbelow_def draw_def length_characters del: upt_Suc)
qed

lemma encode_utf8_ascii:
  "(\<And>c. c \<in> set s \<Longrightarrow> (of_char c :: nat) < 128) \<Longrightarrow>
   encode_utf8 s = map (\<lambda>c. of_nat (of_char c)) s"
  by (induction s) (simp_all add: encode_utf8_def encode_char_def)

lemma nth_characters_ascii: "(of_char (characters ! (r mod 65)) :: nat) < 128"
  by (rule characters_ascii) (simp add: length_characters)



lemma generate_random_data_binary:
  "0 \<le> n \<Longrightarrow> generate_random_data n True w =
     (Inr (map (\<lambda>i. of_nat (rand_src w (rand_pos w + i))) [0..<nat n]),
      w\<lparr>rand_pos := rand_pos w + nat n\<rparr>)"
  by (simp add: generate_random_data_def urandom_def random_bytes_eq)

lemma generate_random_data_text:
  "generate_random_data n False w =
     (Inr (map (\<lambda>i. of_nat (of_char (characters ! (rand_src w (rand_pos w + i) mod 65))))
            [0..<nat n]),
      w\<lparr>rand_pos := rand_pos w + nat n\<rparr>)"
proof -
  have "encode_utf8 (map (\<lambda>i. characters ! (rand_src w (rand_pos w + i) mod 65)) [0..<nat n]) =
        map (\<lambda>c. of_nat (of_char c))
          (map (\<lambda>i. characters ! (rand_src w (rand_pos w + i) mod 65)) [0..<nat n])"
    by (rule encode_utf8_ascii) (auto simp: nth_characters_ascii)
  then show ?thesis
    by (simp add: generate_random_data_def random_text_eq comp_def)
qed

text \<open>
  C1. For every non-negative \<open>size_bytes\<close> and either mode, \<open>generate_random_data\<close> returns
  (it raises nothing) a byte sequence of exactly \<open>size_bytes\<close> bytes; for \<open>size_bytes = 0\<close>
  the sequence is empty.
\<close>

theorem generate_random_data_length:
  "0 \<le> size_bytes \<Longrightarrow>
   \<exists>data w'. generate_random_data size_bytes is_binary w = (Inr data, w') \<and>
     int (length data) = size_bytes \<and> (size_bytes = 0 \<longrightarrow> data = [])"
  by (cases is_binary) (simp_all add: generate_random_data_binary generate_random_data_text)

theorem generate_random_data_length_witness:
  "(0::int) \<le> 4 \<and>
   (\<exists>data w'. generate_random_data 4 True quiet_world = (Inr data, w') \<and>
      int (length data) = 4 \<and> ((4::int) = 0 \<longrightarrow> data = []))"
  using generate_random_data_length [of 4 True quiet_world] by simp







section \<open>The statistics reports and division by zero\<close>

lemma truediv_ok:
  "b \<noteq> 0 \<Longrightarrow> truediv a b w = (Inr (a / b), w\<lparr>divisions := divisions w @ [(a, b)]\<rparr>)"
  by (simp add: truediv_def)

lemma structured_report_empty:
  "total_files st = 0 \<Longrightarrow>
   print_structured_statistics st w =
     (Inr (), w\<lparr>out := out w @ [Stat_text ''No files were generated.'']\<rparr>)"
  by (simp add: print_structured_statistics_def say_def print_def)

lemma structured_report_total:
  "\<exists>w' ds. print_structured_statistics st w = (Inr (), w') \<and>
     divisions w' = divisions w @ ds \<and> 0 \<notin> snd ` set ds \<and>
     (total_files st \<noteq> 0 \<and> binary_files st = 0 \<longrightarrow>
        Stat_num ''Average size (Binary) KB'' 0 \<in> set (out w')) \<and>
     (total_files st \<noteq> 0 \<and> text_files st = 0 \<longrightarrow>
        Stat_num ''Average size (Text) KB'' 0 \<in> set (out w'))"
  by (simp add: print_structured_statistics_def say_def print_def and_then_def return_def
        truediv_ok say_lines_def)

lemma simple_report_total:
  "\<exists>w' ds. print_simple_statistics ss w = (Inr (), w') \<and>
     divisions w' = divisions w @ ds \<and> 0 \<notin> snd ` set ds \<and>
     (total_files ss = 0 \<longrightarrow>
        ds = [(of_int (total_size_bytes ss), 1024 * 1024)] \<and>
        out w' = out w @
          [Stat_text ''--- Simple File Creation Statistics ---'',
           Stat_int ''Total files created'' 0,
           Stat_text ''File type: Binary (Fixed Size)'',
           Stat_num ''Total size MB'' (of_int (total_size_bytes ss) / (1024 * 1024)),
           Stat_num ''Average file size MB'' 0,
           rule_line])"
  by (simp add: print_simple_statistics_def and_then_def return_def truediv_ok say_lines_def)

text \<open>
  C7, as stated, fails in flat mode: on statistics with no files, \<open>print_simple_statistics\<close>
  has no "no files generated" branch. It prints its regular report and evaluates one
  division, of the total size by the constant 1048576.
\<close>

theorem simple_report_no_files_counterexample:
  "out (snd (print_simple_statistics empty_simple_stats quiet_world)) =
     [Stat_text ''--- Simple File Creation Statistics ---'',
      Stat_int ''Total files created'' 0,
      Stat_text ''File type: Binary (Fixed Size)'',
      Stat_num ''Total size MB'' 0,
      Stat_num ''Average file size MB'' 0,
      rule_line] \<and>
   divisions (snd (print_simple_statistics empty_simple_stats quiet_world)) = [(0, 1048576)]"
  by (simp add: print_simple_statistics_def and_then_def return_def truediv_ok say_lines_def
        empty_simple_stats_def quiet_world_def)

text \<open>
  C7, amended. On statistics with \<open>total_files = 0\<close> the structured report prints only
  "No files were generated." and divides by nothing. The flat report has no such branch:
  there it prints its regular report with a total of 0 and an average of 0, and its only
  division is by the constant 1048576. On any statistics both reports return without
  ZeroDivisionError, no division they evaluate has a zero divisor, and the binary and the
  text average of the structured report are 0 when that category has no file.
\<close>

theorem reports_guard_division:
  "(total_files st = 0 \<longrightarrow>
      print_structured_statistics st w =
        (Inr (), w\<lparr>out := out w @ [Stat_text ''No files were generated.'']\<rparr>)) \<and>
   (\<exists>w' ds. print_structured_statistics st w = (Inr (), w') \<and>
      divisions w' = divisions w @ ds \<and> 0 \<notin> snd ` set ds \<and>
      (total_files st \<noteq> 0 \<and> binary_files st = 0 \<longrightarrow>
         Stat_num ''Average size (Binary) KB'' 0 \<in> set (out w')) \<and>
      (total_files st \<noteq> 0 \<and> text_files st = 0 \<longrightarrow>
         Stat_num ''Average size (Text) KB'' 0 \<in> set (out w'))) \<and>
   (\<exists>w' ds. print_simple_statistics ss w = (Inr (), w') \<and>
      divisions w' = divisions w @ ds \<and> 0 \<notin> snd ` set ds \<and>
      (total_files ss = 0 \<longrightarrow>
         ds = [(of_int (total_size_bytes ss), 1024 * 1024)] \<and>
         out w' = out w @
           [Stat_text ''--- Simple File Creation Statistics ---'',
            Stat_int ''Total files created'' 0,
            Stat_text ''File type: Binary (Fixed Size)'',
            Stat_num ''Total size MB'' (of_int (total_size_bytes ss) / (1024 * 1024)),
            Stat_num ''Average file size MB'' 0,
            rule_line]))"
  using structured_report_empty [of st w] structured_report_total [of st w]
    simple_report_total [of ss w]
  by blast

theorem reports_guard_division_witness:
  "total_files empty_stats = 0 \<and>
   print_structured_statistics empty_stats quiet_world =
     (Inr (), quiet_world\<lparr>out := out quiet_world @ [Stat_text ''No files were generated.'']\<rparr>) \<and>
   total_files empty_simple_stats = 0 \<and>
   (\<exists>w'. print_simple_statistics empty_simple_stats quiet_world = (Inr (), w') \<and>
      divisions w' = divisions quiet_world @ [(of_int (total_size_bytes empty_simple_stats), 1024 * 1024)])"
proof -
  have a: "total_files empty_stats = 0" and b: "total_files empty_simple_stats = 0"
    by (simp_all add: empty_stats_def empty_simple_stats_def)
  show ?thesis
    using a b reports_guard_division [of empty_stats quiet_world empty_simple_stats]
    by auto
qed

section \<open>The file-type policy\<close>








section \<open>Validation in main\<close>

lemma main_usage_error:
  "usage_violation args \<Longrightarrow> \<exists>msg. main args w = (SystemExit 2 msg, w)"
  by (auto simp add: usage_violation_def main_def parser_error_def
        split: option.splits prod.splits)

lemma main_returns:
  "\<not> usage_violation args \<Longrightarrow> fst (main args w) = Returned"
  by (auto simp add: usage_violation_def main_def parser_error_def
        split: option.splits prod.splits sum.splits)

text \<open>
  C9, amended. When a count or size argument of the mode in effect is not strictly positive
  (N or M of \<open>--file-create\<close> in flat mode; \<open>-n\<close>, \<open>-m\<close>, \<open>-k\<close> in structured mode), or a
  required structured-mode parameter is missing when flat mode is not selected, \<open>main\<close>
  exits through \<open>parser.error\<close> with status 2 and the world is unchanged: no filesystem call
  was made and nothing was printed to stdout. Otherwise \<open>main\<close> returns normally.
\<close>

theorem main_usage_errors:
  "(usage_violation args \<longrightarrow> (\<exists>msg. main args w = (SystemExit 2 msg, w))) \<and>
   (\<not> usage_violation args \<longrightarrow> fst (main args w) = Returned)"
  using main_usage_error main_returns by blast

theorem main_usage_errors_witness:
  "usage_violation bad_structured_args \<and>
   (\<exists>msg. main bad_structured_args faulty_world = (SystemExit 2 msg, faulty_world)) \<and>
   \<not> usage_violation flat_args \<and>
   fst (main flat_args faulty_world) = Returned"
proof -
  have a: "usage_violation bad_structured_args"
    by (simp add: usage_violation_def bad_structured_args_def)
  have b: "\<not> usage_violation flat_args"
    by (simp add: usage_violation_def flat_args_def)
  have c: "\<exists>msg. main bad_structured_args faulty_world = (SystemExit 2 msg, faulty_world)"
    using a main_usage_errors [of bad_structured_args faulty_world] by (rule_tac mp) simp_all
  have d: "fst (main flat_args faulty_world) = Returned"
    using b main_usage_errors [of flat_args faulty_world] by (rule_tac mp) simp_all
  show ?thesis
    by (intro conjI a b c d)
qed

section \<open>Flat mode\<close>

lemma attempts_ok_append:
  "attempts_ok f n (xs @ ys) = (attempts_ok f n xs \<and> attempts_ok f (n + length xs) ys)"
  by (induction xs arbitrary: n) auto

lemma fs_call_cases:
  "io_fault w (length (io_trace w)) c = None \<Longrightarrow>
     fs_call c w = (Inr (), w\<lparr>io_trace := io_trace w @ [(c, None)]\<rparr>)"
  "io_fault w (length (io_trace w)) c = Some cause \<Longrightarrow>
     fs_call c w = (Inl (OSError cause), w\<lparr>io_trace := io_trace w @ [(c, Some cause)]\<rparr>)"
  by (simp_all add: fs_call_def)

lemma simple_body_run:
  assumes "0 \<le> sz"
  shows "\<exists>a st' w'. simple_body rt sz i st w = (Inr st', w') \<and>
           io_trace w' = io_trace w @ [a] \<and>
           is_write_of (path_join rt (fixed_file_name i)) (nat sz) (fst a) \<and>
           snd a = io_fault w (length (io_trace w)) (fst a) \<and>
           out w' = out w @ [fixed_event sz i a] \<and>
           io_fault w' = io_fault w \<and>
           total_files st' = total_files st + (if snd a = None then 1 else 0) \<and>
           total_size_bytes st' = total_size_bytes st + (if snd a = None then sz else 0)"
proof -
  define d :: "byte list" where "d = map (\<lambda>k. of_nat (rand_src w (rand_pos w + k))) [0..<nat sz]"
  define c where "c = Write_file (path_join rt (fixed_file_name i)) d"
  define w1 where "w1 = w\<lparr>rand_pos := rand_pos w + nat sz\<rparr>"
  have g: "generate_random_data sz True w = (Inr d, w1)"
    using assms by (simp add: generate_random_data_binary d_def w1_def)
  have w1: "io_trace w1 = io_trace w" "io_fault w1 = io_fault w" "out w1 = out w"
    by (simp_all add: w1_def)
  have len: "length d = nat sz" by (simp add: d_def)
  show ?thesis
  proof (cases "io_fault w (length (io_trace w)) c")
    case None
    then have "fs_call c w1 = (Inr (), w1\<lparr>io_trace := io_trace w1 @ [(c, None)]\<rparr>)"
      by (intro fs_call_cases) (simp add: w1)
    then have "simple_body rt sz i st w =
        (Inr (st\<lparr>total_files := total_files st + 1,
                 total_size_bytes := total_size_bytes st + sz\<rparr>),
         print (Created_fixed_file (fixed_file_name i) sz)
           (w1\<lparr>io_trace := io_trace w1 @ [(c, None)]\<rparr>))"
      by (simp add: simple_body_def g write_file_def c_def Let_def)
    then show ?thesis
      using None len
      by (intro exI [of _ "(c, None)"] exI [of _ "st\<lparr>total_files := total_files st + 1,
                 total_size_bytes := total_size_bytes st + sz\<rparr>"]
            exI [of _ "print (Created_fixed_file (fixed_file_name i) sz)
           (w1\<lparr>io_trace := io_trace w1 @ [(c, None)]\<rparr>)"])
         (simp add: print_def w1 fixed_event_def c_def)
  next
    case (Some cause)
    then have "fs_call c w1 = (Inl (OSError cause), w1\<lparr>io_trace := io_trace w1 @ [(c, Some cause)]\<rparr>)"
      by (intro fs_call_cases) (simp add: w1)
    then have "simple_body rt sz i st w =
        (Inr st, print (Error_writing (fixed_file_name i) cause)
           (w1\<lparr>io_trace := io_trace w1 @ [(c, Some cause)]\<rparr>))"
      by (simp add: simple_body_def g write_file_def c_def Let_def)
    then show ?thesis
      using Some len
      by (intro exI [of _ "(c, Some cause)"] exI [of _ st]
            exI [of _ "print (Error_writing (fixed_file_name i) cause)
           (w1\<lparr>io_trace := io_trace w1 @ [(c, Some cause)]\<rparr>)"])
         (simp add: print_def w1 fixed_event_def c_def)
  qed
qed

lemma simple_loop_run:
  assumes "0 \<le> sz"
  shows "\<exists>tr st' w'. simple_loop rt sz js st w = (Inr st', w') \<and>
           io_trace w' = io_trace w @ tr \<and>
           list_all2 (\<lambda>i a. is_write_of (path_join rt (fixed_file_name i)) (nat sz) (fst a)) js tr \<and>
           attempts_ok (io_fault w) (length (io_trace w)) tr \<and>
           out w' = out w @ map2 (fixed_event sz) js tr \<and>
           io_fault w' = io_fault w \<and>
           total_files st' = total_files st + int (length (succeeded tr)) \<and>
           total_size_bytes st' = total_size_bytes st + sz * int (length (succeeded tr))"
proof (induction js arbitrary: st w)
  case Nil
  show ?case by (simp add: succeeded_def)
next
  case (Cons i js)
  obtain a st1 w1 where b: "simple_body rt sz i st w = (Inr st1, w1)"
      "io_trace w1 = io_trace w @ [a]"
      "is_write_of (path_join rt (fixed_file_name i)) (nat sz) (fst a)"
      "snd a = io_fault w (length (io_trace w)) (fst a)"
      "out w1 = out w @ [fixed_event sz i a]"
      "io_fault w1 = io_fault w"
      "total_files st1 = total_files st + (if snd a = None then 1 else 0)"
      "total_size_bytes st1 = total_size_bytes st + (if snd a = None then sz else 0)"
    using simple_body_run [OF assms, of rt i st w] by blast
  obtain tr st' w' where l: "simple_loop rt sz js st1 w1 = (Inr st', w')"
      "io_trace w' = io_trace w1 @ tr"
      "list_all2 (\<lambda>i a. is_write_of (path_join rt (fixed_file_name i)) (nat sz) (fst a)) js tr"
      "attempts_ok (io_fault w1) (length (io_trace w1)) tr"
      "out w' = out w1 @ map2 (fixed_event sz) js tr"
      "io_fault w' = io_fault w1"
      "total_files st' = total_files st1 + int (length (succeeded tr))"
      "total_size_bytes st' = total_size_bytes st1 + sz * int (length (succeeded tr))"
    using Cons.IH [of st1 w1] by blast
  have ok: "attempts_ok (io_fault w) (length (io_trace w)) (a # tr)"
    using b(2,4,6) l(4) by (cases a) simp
  show ?case
  proof (intro exI conjI)
    show "simple_loop rt sz (i # js) st w = (Inr st', w')"
      using b(1) l(1) by simp
    show "io_trace w' = io_trace w @ (a # tr)"
      using b(2) l(2) by simp
    show "list_all2 (\<lambda>i a. is_write_of (path_join rt (fixed_file_name i)) (nat sz) (fst a)) (i # js) (a # tr)"
      using b(3) l(3) by simp
    show "attempts_ok (io_fault w) (length (io_trace w)) (a # tr)"
      by (rule ok)
    show "out w' = out w @ map2 (fixed_event sz) (i # js) (a # tr)"
      using b(5) l(5) by simp
    show "io_fault w' = io_fault w"
      using b(6) l(6) by simp
    show "total_files st' = total_files st + int (length (succeeded (a # tr)))"
      using b(7) l(7) by (simp add: succeeded_def)
    show "total_size_bytes st' = total_size_bytes st + sz * int (length (succeeded (a # tr)))"
      using b(8) l(8) by (simp add: succeeded_def algebra_simps)
  qed
qed

lemma attempts_ok_no_fault:
  "attempts_ok f n tr \<Longrightarrow> (\<And>k c. f k c = None) \<Longrightarrow> succeeded tr = tr"
  by (induction tr arbitrary: n) (auto simp add: succeeded_def)

lemma create_files_simple_run:
  assumes "0 \<le> size_kb" and "io_fault w (length (io_trace w)) (Makedirs rt) = None"
  shows "\<exists>tr st' w'. create_files_simple rt num_files size_kb w = (Inr st', w') \<and>
           io_trace w' = io_trace w @ (Makedirs rt, None) # tr \<and>
           list_all2 (\<lambda>i a. is_write_of (path_join rt (fixed_file_name i))
                        (nat (size_kb * 1024)) (fst a)) [1..num_files] tr \<and>
           attempts_ok (io_fault w) (Suc (length (io_trace w))) tr \<and>
           out w' = out w @ Creating_files_in rt #
                      map2 (fixed_event (size_kb * 1024)) [1..num_files] tr \<and>
           total_files st' = int (length (succeeded tr)) \<and>
           total_size_bytes st' = size_kb * 1024 * int (length (succeeded tr))"
proof -
  define w1 where "w1 = print (Creating_files_in rt) w"
  define w2 where "w2 = w1\<lparr>io_trace := io_trace w1 @ [(Makedirs rt, None)]\<rparr>"
  have w1: "io_trace w1 = io_trace w" "io_fault w1 = io_fault w" "out w1 = out w @ [Creating_files_in rt]"
    by (simp_all add: w1_def print_def)
  have m: "makedirs rt w1 = (Inr (), w2)"
    unfolding makedirs_def w2_def using assms(2) by (intro fs_call_cases) (simp add: w1)
  have w2: "io_trace w2 = io_trace w @ [(Makedirs rt, None)]" "io_fault w2 = io_fault w"
      "out w2 = out w @ [Creating_files_in rt]"
    by (simp_all add: w2_def w1)
  have "0 \<le> size_kb * 1024" using assms(1) by simp
  from simple_loop_run [OF this, of rt "[1..num_files]" empty_simple_stats w2]
  obtain tr st' w' where l:
      "simple_loop rt (size_kb * 1024) [1..num_files] empty_simple_stats w2 = (Inr st', w')"
      "io_trace w' = io_trace w2 @ tr"
      "list_all2 (\<lambda>i a. is_write_of (path_join rt (fixed_file_name i))
                        (nat (size_kb * 1024)) (fst a)) [1..num_files] tr"
      "attempts_ok (io_fault w2) (length (io_trace w2)) tr"
      "out w' = out w2 @ map2 (fixed_event (size_kb * 1024)) [1..num_files] tr"
      "total_files st' = total_files empty_simple_stats + int (length (succeeded tr))"
      "total_size_bytes st' =
         total_size_bytes empty_simple_stats + size_kb * 1024 * int (length (succeeded tr))"
    by blast
  have "create_files_simple rt num_files size_kb w = (Inr st', w')"
    using m l(1) by (simp add: create_files_simple_def Let_def w1_def)
  then show ?thesis
    using l(2-7) by (intro exI [of _ tr] exI [of _ st'] exI [of _ w'])
      (simp add: w2 empty_simple_stats_def)
qed

text \<open>
  C6. For every call of \<open>create_files_simple\<close> with positive arguments whose
  \<open>os.makedirs\<close> succeeds, the call returns statistics; \<open>num_files\<close> writes are attempted,
  file \<open>i\<close> being \<open>fixed_file_<i>.bin\<close> under the root with \<open>size_kb * 1024\<close> random bytes;
  \<open>total_files\<close> is the number of writes that succeeded and \<open>total_size_bytes\<close> is
  \<open>total_files * size_kb * 1024\<close>. With no write failure that is \<open>num_files\<close> files, and
  for 5 files of 10 KB 51200 bytes.
\<close>

theorem flat_stats_count_written_files:
  assumes "0 < num_files" and "0 < size_kb"
    and "io_fault w (length (io_trace w)) (Makedirs root_dir) = None"
  shows "\<exists>tr st w'. create_files_simple root_dir num_files size_kb w = (Inr st, w') \<and>
           io_trace w' = io_trace w @ (Makedirs root_dir, None) # tr \<and>
           int (length tr) = num_files \<and>
           list_all2 (\<lambda>i a. is_write_of (path_join root_dir (fixed_file_name i))
                        (nat (size_kb * 1024)) (fst a)) [1..num_files] tr \<and>
           total_files st = int (length (succeeded tr)) \<and>
           total_size_bytes st = total_files st * size_kb * 1024 \<and>
           ((\<forall>k c. io_fault w k c = None) \<longrightarrow>
              total_files st = num_files \<and> total_size_bytes st = num_files * size_kb * 1024)"
proof -
  from create_files_simple_run [of size_kb w root_dir num_files] assms
  obtain tr st w' where r:
      "create_files_simple root_dir num_files size_kb w = (Inr st, w')"
      "io_trace w' = io_trace w @ (Makedirs root_dir, None) # tr"
      "list_all2 (\<lambda>i a. is_write_of (path_join root_dir (fixed_file_name i))
                        (nat (size_kb * 1024)) (fst a)) [1..num_files] tr"
      "attempts_ok (io_fault w) (Suc (length (io_trace w))) tr"
      "total_files st = int (length (succeeded tr))"
      "total_size_bytes st = size_kb * 1024 * int (length (succeeded tr))"
    by force
  have len: "int (length tr) = num_files"
    using list_all2_lengthD [OF r(3)] assms(1) by simp
  have nf: "succeeded tr = tr" if "\<forall>k c. io_fault w k c = None"
    using attempts_ok_no_fault [OF r(4)] that by simp
  show ?thesis
    using r(1,2,3,5,6) len nf
    by (intro exI [of _ tr] exI [of _ st] exI [of _ w']) auto
qed

theorem flat_stats_count_written_files_witness:
  "\<exists>st w'. create_files_simple ''out'' 5 10 quiet_world = (Inr st, w') \<and>
     total_files st = 5 \<and> total_size_bytes st = 51200"
proof -
  have "io_fault quiet_world (length (io_trace quiet_world)) (Makedirs ''out'') = None"
    and "\<forall>k c. io_fault quiet_world k c = None"
    by (simp_all add: quiet_world_def)
  then show ?thesis
    using flat_stats_count_written_files [of 5 10 quiet_world "''out''"] by fastforce
qed

section \<open>Structured mode\<close>

lemma same_io_refl: "same_io w w"
  by (simp add: same_io_def)

lemma same_io_trans: "same_io a b \<Longrightarrow> same_io b c \<Longrightarrow> same_io a c"
  by (simp add: same_io_def)

lemma pick_is_binary_run:
  "\<exists>b w1. pick_is_binary ft w = (Inr b, w1) \<and> type_allowed ft b \<and> same_io w w1"
  by (auto simp add: pick_is_binary_def type_allowed_def same_io_def choice_def randbelow_def
        draw_def)

lemma randint_run:
  assumes "lo \<le> hi"
  shows "\<exists>s w1. randint lo hi w = (Inr s, w1) \<and> lo \<le> s \<and> s \<le> hi \<and> same_io w w1"
proof -
  have "0 < nat (hi - lo + 1)" using assms by simp
  then have "rand_src w (rand_pos w) mod nat (hi - lo + 1) < nat (hi - lo + 1)"
    by (rule mod_less_divisor)
  then have "lo + int (rand_src w (rand_pos w) mod nat (hi - lo + 1)) \<le> hi"
    by linarith
  then show ?thesis
    using assms by (simp add: randint_def randbelow_def draw_def same_io_def)
qed

lemma generate_random_data_run:
  assumes "0 \<le> s"
  shows "\<exists>d w1. generate_random_data s b w = (Inr d, w1) \<and> int (length d) = s \<and> same_io w w1"
  using assms
  by (cases b) (simp_all add: generate_random_data_binary generate_random_data_text same_io_def)


lemma file_body_run:
  assumes "lo \<le> hi" and "0 \<le> lo"
  shows "\<exists>a e st' w'. file_body dir ft lo hi j st w = (Inr st', w') \<and>
           io_trace w' = io_trace w @ [a] \<and> out w' = out w @ [e] \<and>
           file_attempt dir ft lo hi j (a, e) \<and>
           snd a = io_fault w (length (io_trace w)) (fst a) \<and>
           st' = tally_event e st \<and> io_fault w' = io_fault w"
proof -
  obtain b w1 where p: "pick_is_binary ft w = (Inr b, w1)" "type_allowed ft b" "same_io w w1"
    using pick_is_binary_run by blast
  obtain s w2 where r: "randint lo hi w1 = (Inr s, w2)" "lo \<le> s" "s \<le> hi" "same_io w1 w2"
    using randint_run [OF assms(1)] by blast
  have "0 \<le> s" using assms(2) r(2) by simp
  then obtain d w3 where g: "generate_random_data s b w2 = (Inr d, w3)" "int (length d) = s"
      "same_io w2 w3"
    using generate_random_data_run by blast
  have io: "same_io w w3"
    using p(3) r(4) g(3) by (blast intro: same_io_trans)
  then have w3: "io_trace w3 = io_trace w" "io_fault w3 = io_fault w" "out w3 = out w"
    by (simp_all add: same_io_def)
  define c where "c = Write_file (path_join dir (file_name j b)) d"
  have "file_attempt_typed b dir ft lo hi j ((c, x), file_event j b (c, x))" for x
    using p(2) r(2,3) g(2) by (auto simp add: file_attempt_typed_def c_def op_size_def)
  then have att: "file_attempt dir ft lo hi j ((c, x), file_event j b (c, x))" for x
    unfolding file_attempt_def by (cases b) auto
  show ?thesis
  proof (cases "io_fault w (length (io_trace w)) c")
    case None
    then have "fs_call c w3 = (Inr (), w3\<lparr>io_trace := io_trace w3 @ [(c, None)]\<rparr>)"
      by (intro fs_call_cases) (simp add: w3)
    then have "file_body dir ft lo hi j st w =
        (Inr (update_stats b s st),
         print (Created_file (file_name j b) b s) (w3\<lparr>io_trace := io_trace w3 @ [(c, None)]\<rparr>))"
      by (simp add: file_body_def p(1) r(1) g(1) write_file_def c_def Let_def)
    moreover have "file_event j b (c, None) = Created_file (file_name j b) b s"
      using g(2) by (simp add: file_event_def c_def op_size_def)
    ultimately show ?thesis
      using None att [of None]
      by (intro exI [of _ "(c, None)"] exI [of _ "Created_file (file_name j b) b s"]
            exI [of _ "update_stats b s st"]
            exI [of _ "print (Created_file (file_name j b) b s)
                         (w3\<lparr>io_trace := io_trace w3 @ [(c, None)]\<rparr>)"])
         (simp add: print_def w3)
  next
    case (Some cause)
    then have "fs_call c w3 =
        (Inl (OSError cause), w3\<lparr>io_trace := io_trace w3 @ [(c, Some cause)]\<rparr>)"
      by (intro fs_call_cases) (simp add: w3)
    then have "file_body dir ft lo hi j st w =
        (Inr st, print (Error_writing (file_name j b) cause)
                   (w3\<lparr>io_trace := io_trace w3 @ [(c, Some cause)]\<rparr>))"
      by (simp add: file_body_def p(1) r(1) g(1) write_file_def c_def Let_def)
    moreover have "file_event j b (c, Some cause) = Error_writing (file_name j b) cause"
      by (simp add: file_event_def)
    ultimately show ?thesis
      using Some att [of "Some cause"]
      by (intro exI [of _ "(c, Some cause)"] exI [of _ "Error_writing (file_name j b) cause"]
            exI [of _ st]
            exI [of _ "print (Error_writing (file_name j b) cause)
                         (w3\<lparr>io_trace := io_trace w3 @ [(c, Some cause)]\<rparr>)"])
         (simp add: print_def w3)
  qed
qed


lemma tally_simps:
  "tally [] st = st"
  "tally (e # evs) st = tally evs (tally_event e st)"
  "tally (xs @ ys) st = tally ys (tally xs st)"
  by (simp_all add: tally_def)

lemma files_loop_run:
  assumes "lo \<le> hi" and "0 \<le> lo"
  shows "\<exists>tr evs st' w'. files_loop dir ft lo hi js st w = (Inr st', w') \<and>
           io_trace w' = io_trace w @ tr \<and> out w' = out w @ evs \<and>
           length tr = length js \<and> length evs = length js \<and>
           list_all2 (file_attempt dir ft lo hi) js (zip tr evs) \<and>
           attempts_ok (io_fault w) (length (io_trace w)) tr \<and>
           st' = tally evs st \<and> io_fault w' = io_fault w"
proof (induction js arbitrary: st w)
  case Nil
  show ?case by (simp add: tally_simps)
next
  case (Cons j js)
  obtain a e st1 w1 where b: "file_body dir ft lo hi j st w = (Inr st1, w1)"
      "io_trace w1 = io_trace w @ [a]" "out w1 = out w @ [e]"
      "file_attempt dir ft lo hi j (a, e)"
      "snd a = io_fault w (length (io_trace w)) (fst a)"
      "st1 = tally_event e st" "io_fault w1 = io_fault w"
    using file_body_run [OF assms, of dir ft j st w] by blast
  obtain tr evs st' w' where l: "files_loop dir ft lo hi js st1 w1 = (Inr st', w')"
      "io_trace w' = io_trace w1 @ tr" "out w' = out w1 @ evs"
      "length tr = length js" "length evs = length js"
      "list_all2 (file_attempt dir ft lo hi) js (zip tr evs)"
      "attempts_ok (io_fault w1) (length (io_trace w1)) tr"
      "st' = tally evs st1" "io_fault w' = io_fault w1"
    using Cons.IH [of st1 w1] by blast
  have ok: "attempts_ok (io_fault w) (length (io_trace w)) (a # tr)"
    using b(2,5,7) l(7) by (cases a) simp
  show ?case
  proof (intro exI [of _ "a # tr"] exI [of _ "e # evs"] exI [of _ st'] exI [of _ w'] conjI)
    show "files_loop dir ft lo hi (j # js) st w = (Inr st', w')"
      using b(1) l(1) by simp
    show "io_trace w' = io_trace w @ a # tr" using b(2) l(2) by simp
    show "out w' = out w @ e # evs" using b(3) l(3) by simp
    show "length (a # tr) = length (j # js)" using l(4) by simp
    show "length (e # evs) = length (j # js)" using l(5) by simp
    show "list_all2 (file_attempt dir ft lo hi) (j # js) (zip (a # tr) (e # evs))"
      using b(4) l(6) by simp
    show "attempts_ok (io_fault w) (length (io_trace w)) (a # tr)" by (rule ok)
    show "st' = tally (e # evs) st" using b(6) l(8) by (simp add: tally_simps)
    show "io_fault w' = io_fault w" using b(7) l(9) by simp
  qed
qed

lemma subdir_body_run:
  assumes "1 \<le> M" and "lo \<le> hi" and "0 \<le> lo"
    and "\<And>k p. io_fault w k (Makedirs p) = None"
  shows "\<exists>blk st' w'. subdir_body rt M ft lo hi i st w = (Inr st', w') \<and>
           io_trace w' = io_trace w @ block_trace rt i blk \<and>
           out w' = out w @ block_events i blk \<and>
           subdir_block rt M ft lo hi i blk \<and>
           attempts_ok (io_fault w) (length (io_trace w)) (block_trace rt i blk) \<and>
           st' = tally (block_events i blk) st \<and> io_fault w' = io_fault w"
proof -
  define sub where "sub = path_join rt (subdir_name i)"
  define w1 where "w1 = w\<lparr>io_trace := io_trace w @ [(Makedirs sub, None)]\<rparr>"
  define w2 where "w2 = print (Created_subdir (subdir_name i)) w1"
  have m: "makedirs sub w = (Inr (), w1)"
    unfolding makedirs_def w1_def using assms(4) by (intro fs_call_cases) simp
  have w2: "io_trace w2 = io_trace w @ [(Makedirs sub, None)]" "io_fault w2 = io_fault w"
      "out w2 = out w @ [Created_subdir (subdir_name i)]"
    by (simp_all add: w2_def w1_def print_def)
  obtain n w3 where r: "randint 1 M w2 = (Inr n, w3)" "1 \<le> n" "n \<le> M" "same_io w2 w3"
    using randint_run [OF assms(1)] by blast
  have w3: "io_trace w3 = io_trace w @ [(Makedirs sub, None)]" "io_fault w3 = io_fault w"
      "out w3 = out w @ [Created_subdir (subdir_name i)]"
    using r(4) w2 by (simp_all add: same_io_def)
  obtain tr evs st' w' where l: "files_loop sub ft lo hi [1..n] st w3 = (Inr st', w')"
      "io_trace w' = io_trace w3 @ tr" "out w' = out w3 @ evs"
      "length tr = length [1..n]" "length evs = length [1..n]"
      "list_all2 (file_attempt sub ft lo hi) [1..n] (zip tr evs)"
      "attempts_ok (io_fault w3) (length (io_trace w3)) tr"
      "st' = tally evs st" "io_fault w' = io_fault w3"
    using files_loop_run [OF assms(2,3), of sub ft "[1..n]" st w3] by blast
  have len: "int (length tr) = n" using l(4) r(2) by simp
  have body: "subdir_body rt M ft lo hi i st w = (Inr st', w')"
    using m r(1) l(1) by (simp add: subdir_body_def Let_def sub_def [symmetric] w2_def)
  have blk: "subdir_block rt M ft lo hi i (tr, evs)"
    using l(4,5,6) len r(2,3) by (simp add: subdir_block_def sub_def [symmetric])
  have ok: "attempts_ok (io_fault w) (length (io_trace w)) (block_trace rt i (tr, evs))"
    using l(7) assms(4) by (simp add: block_trace_def w3)
  show ?thesis
  proof (intro exI [of _ "(tr, evs)"] exI [of _ st'] exI [of _ w'] conjI)
    show "subdir_body rt M ft lo hi i st w = (Inr st', w')" by (rule body)
    show "io_trace w' = io_trace w @ block_trace rt i (tr, evs)"
      using l(2) by (simp add: w3 block_trace_def sub_def)
    show "out w' = out w @ block_events i (tr, evs)"
      using l(3) by (simp add: w3 block_events_def)
    show "subdir_block rt M ft lo hi i (tr, evs)" by (rule blk)
    show "attempts_ok (io_fault w) (length (io_trace w)) (block_trace rt i (tr, evs))"
      by (rule ok)
    show "st' = tally (block_events i (tr, evs)) st"
      using l(8) by (simp add: block_events_def tally_simps)
    show "io_fault w' = io_fault w" using l(9) by (simp add: w3)
  qed
qed


lemma subdirs_loop_run:
  assumes "1 \<le> M" and "lo \<le> hi" and "0 \<le> lo"
    and "\<And>k p. io_fault w k (Makedirs p) = None"
  shows "\<exists>blks st' w'. subdirs_loop rt M ft lo hi js st w = (Inr st', w') \<and>
           io_trace w' = io_trace w @ concat (map2 (block_trace rt) js blks) \<and>
           out w' = out w @ concat (map2 block_events js blks) \<and>
           list_all2 (subdir_block rt M ft lo hi) js blks \<and>
           attempts_ok (io_fault w) (length (io_trace w))
             (concat (map2 (block_trace rt) js blks)) \<and>
           st' = tally (concat (map2 block_events js blks)) st \<and>
           io_fault w' = io_fault w"
  using assms(4)
proof (induction js arbitrary: st w)
  case Nil
  show ?case by (simp add: tally_simps)
next
  case (Cons i js)
  obtain blk st1 w1 where b: "subdir_body rt M ft lo hi i st w = (Inr st1, w1)"
      "io_trace w1 = io_trace w @ block_trace rt i blk"
      "out w1 = out w @ block_events i blk"
      "subdir_block rt M ft lo hi i blk"
      "attempts_ok (io_fault w) (length (io_trace w)) (block_trace rt i blk)"
      "st1 = tally (block_events i blk) st" "io_fault w1 = io_fault w"
    using subdir_body_run [OF assms(1-3) Cons.prems, of rt ft i st] by blast
  have nf: "\<And>k p. io_fault w1 k (Makedirs p) = None"
    using Cons.prems b(7) by simp
  obtain blks st' w' where l: "subdirs_loop rt M ft lo hi js st1 w1 = (Inr st', w')"
      "io_trace w' = io_trace w1 @ concat (map2 (block_trace rt) js blks)"
      "out w' = out w1 @ concat (map2 block_events js blks)"
      "list_all2 (subdir_block rt M ft lo hi) js blks"
      "attempts_ok (io_fault w1) (length (io_trace w1))
         (concat (map2 (block_trace rt) js blks))"
      "st' = tally (concat (map2 block_events js blks)) st1"
      "io_fault w' = io_fault w1"
    using Cons.IH [OF nf, of st1] by blast
  show ?case
  proof (intro exI [of _ "blk # blks"] exI [of _ st'] exI [of _ w'] conjI)
    show "subdirs_loop rt M ft lo hi (i # js) st w = (Inr st', w')"
      using b(1) l(1) by simp
    show "io_trace w' = io_trace w @ concat (map2 (block_trace rt) (i # js) (blk # blks))"
      using b(2) l(2) by simp
    show "out w' = out w @ concat (map2 block_events (i # js) (blk # blks))"
      using b(3) l(3) by simp
    show "list_all2 (subdir_block rt M ft lo hi) (i # js) (blk # blks)"
      using b(4) l(4) by simp
    show "attempts_ok (io_fault w) (length (io_trace w))
            (concat (map2 (block_trace rt) (i # js) (blk # blks)))"
      using b(2,5,7) l(5) by (simp add: attempts_ok_append)
    show "st' = tally (concat (map2 block_events (i # js) (blk # blks))) st"
      using b(6) l(6) by (simp add: tally_simps)
    show "io_fault w' = io_fault w" using b(7) l(7) by simp
  qed
qed

text \<open>The whole structured run: \<open>lo\<close> is the minimum size after clamping.\<close>

lemma create_structured_files_run:
  assumes "1 \<le> M" and "0 \<le> K" and "0 \<le> min_size_bytes"
    and "\<And>k p. io_fault w k (Makedirs p) = None"
  shows "\<exists>blks st w'. create_structured_files rt N M K ft min_size_bytes w = (Inr st, w') \<and>
           io_trace w' = io_trace w @ (Makedirs rt, None) #
             concat (map2 (block_trace rt) [1..N] blks) \<and>
           out w' = out w @ Creating_structured rt #
             (if K * 1024 < min_size_bytes
              then [Warning_min_larger min_size_bytes (K * 1024)] else []) @
             concat (map2 block_events [1..N] blks) \<and>
           list_all2 (subdir_block rt M ft (min min_size_bytes (K * 1024)) (K * 1024))
             [1..N] blks \<and>
           attempts_ok (io_fault w) (Suc (length (io_trace w)))
             (concat (map2 (block_trace rt) [1..N] blks)) \<and>
           st = tally (concat (map2 block_events [1..N] blks)) empty_stats"
proof -
  define hi where "hi = K * 1024"
  define lo where "lo = min min_size_bytes hi"
  define pre where "pre = Creating_structured rt #
     (if hi < min_size_bytes then [Warning_min_larger min_size_bytes hi] else [])"
  define w1 where "w1 = print (Creating_structured rt) w"
  define w2 where "w2 = w1\<lparr>io_trace := io_trace w1 @ [(Makedirs rt, None)]\<rparr>"
  define w3 where "w3 = (if hi < min_size_bytes
     then print (Warning_min_larger min_size_bytes hi) w2 else w2)"
  have m: "makedirs rt w1 = (Inr (), w2)"
    unfolding makedirs_def w2_def using assms(4)
    by (intro fs_call_cases) (simp add: w1_def print_def)
  have w3: "io_trace w3 = io_trace w @ [(Makedirs rt, None)]" "io_fault w3 = io_fault w"
      "out w3 = out w @ pre"
    by (simp_all add: w3_def w2_def w1_def print_def pre_def)
  have bounds: "lo \<le> hi" "0 \<le> lo"
    using assms(2,3) by (simp_all add: lo_def hi_def)
  have nf: "\<And>k p. io_fault w3 k (Makedirs p) = None"
    using assms(4) w3(2) by simp
  obtain blks st w' where l: "subdirs_loop rt M ft lo hi [1..N] empty_stats w3 = (Inr st, w')"
      "io_trace w' = io_trace w3 @ concat (map2 (block_trace rt) [1..N] blks)"
      "out w' = out w3 @ concat (map2 block_events [1..N] blks)"
      "list_all2 (subdir_block rt M ft lo hi) [1..N] blks"
      "attempts_ok (io_fault w3) (length (io_trace w3))
         (concat (map2 (block_trace rt) [1..N] blks))"
      "st = tally (concat (map2 block_events [1..N] blks)) empty_stats"
    using subdirs_loop_run [OF assms(1) bounds nf, of rt ft "[1..N]" empty_stats] by blast
  have run: "create_structured_files rt N M K ft min_size_bytes w = (Inr st, w')"
  proof (cases "hi < min_size_bytes")
    case True
    then have "lo = hi" by (simp add: lo_def)
    then show ?thesis
      using True m l(1)
      by (simp add: create_structured_files_def Let_def hi_def [symmetric] w1_def [symmetric]
            w3_def)
  next
    case False
    then have "lo = min_size_bytes" by (simp add: lo_def)
    then show ?thesis
      using False m l(1)
      by (simp add: create_structured_files_def Let_def hi_def [symmetric] w1_def [symmetric]
            w3_def)
  qed
  show ?thesis
  proof (intro exI [of _ blks] exI [of _ st] exI [of _ w'] conjI)
    show "create_structured_files rt N M K ft min_size_bytes w = (Inr st, w')" by (rule run)
    show "io_trace w' = io_trace w @ (Makedirs rt, None) #
            concat (map2 (block_trace rt) [1..N] blks)"
      using l(2) by (simp add: w3)
    show "out w' = out w @ Creating_structured rt #
            (if K * 1024 < min_size_bytes
             then [Warning_min_larger min_size_bytes (K * 1024)] else []) @
            concat (map2 block_events [1..N] blks)"
      using l(3) by (simp add: w3 pre_def hi_def)
    show "list_all2 (subdir_block rt M ft (min min_size_bytes (K * 1024)) (K * 1024))
            [1..N] blks"
      using l(4) by (simp add: lo_def hi_def)
    show "attempts_ok (io_fault w) (Suc (length (io_trace w)))
            (concat (map2 (block_trace rt) [1..N] blks))"
      using l(5) by (simp add: w3)
    show "st = tally (concat (map2 block_events [1..N] blks)) empty_stats" by (rule l(6))
  qed
qed

lemma subdir_block_sizes:
  assumes "subdir_block rt M ft lo hi i blk" and "a \<in> set (fst blk)"
  shows "lo \<le> op_size (fst a) \<and> op_size (fst a) \<le> hi"
proof -
  obtain k where k: "k < length (fst blk)" "fst blk ! k = a"
    using assms(2) by (auto simp add: in_set_conv_nth)
  have len: "length (fst blk) = length (snd blk)"
    using assms(1) unfolding subdir_block_def by blast
  have "list_all2 (file_attempt (path_join rt (subdir_name i)) ft lo hi)
          [1..int (length (fst blk))] (zip (fst blk) (snd blk))"
    using assms(1) unfolding subdir_block_def by blast
  then have "file_attempt (path_join rt (subdir_name i)) ft lo hi
               ([1..int (length (fst blk))] ! k) (zip (fst blk) (snd blk) ! k)"
    using k(1) len unfolding list_all2_conv_all_nth by simp
  then show ?thesis
    using k len by (auto simp add: file_attempt_def file_attempt_typed_def)
qed







text \<open>
  C3. When \<open>min_size_bytes\<close> is above \<open>K * 1024\<close> the run does not fail (for positive M,
  non-negative K and \<open>os.makedirs\<close> succeeding): it prints the warning, takes \<open>K * 1024\<close> as
  the minimum, and every file written has exactly \<open>K * 1024\<close> bytes. When \<open>min_size_bytes\<close>
  equals \<open>K * 1024\<close> there is no warning and every file has that size as well.
\<close>

theorem clamped_sizes_are_fixed:
  assumes "0 < M" and "0 \<le> K" and "K * 1024 \<le> min_size_bytes"
    and "\<And>k p. io_fault w k (Makedirs p) = None"
  shows "\<exists>blks st w' evs. create_structured_files root_dir N M K file_type min_size_bytes w =
             (Inr st, w') \<and>
           io_trace w' = io_trace w @ (Makedirs root_dir, None) #
             concat (map2 (\<lambda>i blk. (Makedirs (path_join root_dir (subdir_name i)), None) #
                             fst blk) [1..N] blks) \<and>
           (\<forall>blk \<in> set blks. \<forall>a \<in> set (fst blk). op_size (fst a) = K * 1024) \<and>
           out w' = out w @ evs \<and>
           (K * 1024 < min_size_bytes \<longrightarrow>
              Warning_min_larger min_size_bytes (K * 1024) \<in> set evs) \<and>
           list_all2 (subdir_block root_dir M file_type (K * 1024) (K * 1024)) [1..N] blks"
proof -
  have "0 \<le> min_size_bytes" "1 \<le> M" using assms(1,2,3) by simp_all
  from create_structured_files_run [OF this(2) assms(2) this(1) assms(4), of root_dir N file_type]
  obtain blks st w' where r:
      "create_structured_files root_dir N M K file_type min_size_bytes w = (Inr st, w')"
      "io_trace w' = io_trace w @ (Makedirs root_dir, None) #
         concat (map2 (block_trace root_dir) [1..N] blks)"
      "out w' = out w @ Creating_structured root_dir #
         (if K * 1024 < min_size_bytes
          then [Warning_min_larger min_size_bytes (K * 1024)] else []) @
         concat (map2 block_events [1..N] blks)"
      "list_all2 (subdir_block root_dir M file_type (min min_size_bytes (K * 1024)) (K * 1024))
         [1..N] blks"
    by blast
  have m: "min min_size_bytes (K * 1024) = K * 1024" using assms(3) by simp
  have l: "list_all2 (subdir_block root_dir M file_type (K * 1024) (K * 1024)) [1..N] blks"
    using r(4) unfolding m .
  have each: "\<forall>a \<in> set (fst blk). op_size (fst a) = K * 1024"
    if mem: "blk \<in> set blks" for blk
  proof -
    obtain k where "k < length blks" "blks ! k = blk"
      using mem by (auto simp add: in_set_conv_nth)
    then have "subdir_block root_dir M file_type (K * 1024) (K * 1024) ([1..N] ! k) blk"
      using list_all2_nthD2 [OF l] by blast
    then show ?thesis
      using subdir_block_sizes by fastforce
  qed
  have tr: "map2 (block_trace root_dir) [1..N] blks =
            map2 (\<lambda>i blk. (Makedirs (path_join root_dir (subdir_name i)), None) # fst blk)
              [1..N] blks"
    by (simp add: block_trace_def [abs_def])
  define evs where "evs = Creating_structured root_dir #
         (if K * 1024 < min_size_bytes
          then [Warning_min_larger min_size_bytes (K * 1024)] else []) @
         concat (map2 block_events [1..N] blks)"
  have w: "K * 1024 < min_size_bytes \<longrightarrow>
      Warning_min_larger min_size_bytes (K * 1024) \<in> set evs"
    by (simp add: evs_def)
  have o: "out w' = out w @ evs" using r(3) by (simp add: evs_def)
  show ?thesis
  proof (intro exI [of _ blks] exI [of _ st] exI [of _ w'] exI [of _ evs] conjI)
    show "create_structured_files root_dir N M K file_type min_size_bytes w = (Inr st, w')"
      by (rule r(1))
    show "io_trace w' = io_trace w @ (Makedirs root_dir, None) #
            concat (map2 (\<lambda>i blk. (Makedirs (path_join root_dir (subdir_name i)), None) #
                            fst blk) [1..N] blks)"
      using r(2) unfolding tr .
    show "\<forall>blk \<in> set blks. \<forall>a \<in> set (fst blk). op_size (fst a) = K * 1024"
      using each by (intro ballI) blast
    show "out w' = out w @ evs" by (rule o)
    show "K * 1024 < min_size_bytes \<longrightarrow>
            Warning_min_larger min_size_bytes (K * 1024) \<in> set evs"
      by (rule w)
    show "list_all2 (subdir_block root_dir M file_type (K * 1024) (K * 1024)) [1..N] blks"
      by (rule l)
  qed
qed


theorem clamped_sizes_are_fixed_witness:
  "(0::int) < 3 \<and> (0::int) \<le> 1 \<and> (1::int) * 1024 \<le> 5000 \<and>
   (\<forall>k p. io_fault faulty_world k (Makedirs p) = None) \<and>
   (\<exists>blks st w' evs. create_structured_files ''out'' 2 3 1 ''mix'' 5000 faulty_world =
       (Inr st, w') \<and>
     io_trace w' = io_trace faulty_world @ (Makedirs ''out'', None) #
       concat (map2 (\<lambda>i blk. (Makedirs (path_join ''out'' (subdir_name i)), None) #
                       fst blk) [1..2] blks) \<and>
     (\<forall>blk \<in> set blks. \<forall>a \<in> set (fst blk). op_size (fst a) = 1024) \<and>
     out w' = out faulty_world @ evs \<and>
     Warning_min_larger 5000 1024 \<in> set evs \<and>
     list_all2 (subdir_block ''out'' 3 ''mix'' 1024 1024) [1..2] blks)"
proof -
  have nf: "\<And>k p. io_fault faulty_world k (Makedirs p) = None"
    by (simp add: faulty_world_def)
  have b: "\<forall>k p. io_fault faulty_world k (Makedirs p) = None"
    using nf by blast
  have h: "(0::int) < 3" "(0::int) \<le> 1" "(1::int) * 1024 \<le> 5000"
    by simp_all
  have c: "\<exists>blks st w' evs. create_structured_files ''out'' 2 3 1 ''mix'' 5000 faulty_world =
       (Inr st, w') \<and>
     io_trace w' = io_trace faulty_world @ (Makedirs ''out'', None) #
       concat (map2 (\<lambda>i blk. (Makedirs (path_join ''out'' (subdir_name i)), None) #
                       fst blk) [1..2] blks) \<and>
     (\<forall>blk \<in> set blks. \<forall>a \<in> set (fst blk). op_size (fst a) = 1024) \<and>
     out w' = out faulty_world @ evs \<and>
     Warning_min_larger 5000 1024 \<in> set evs \<and>
     list_all2 (subdir_block ''out'' 3 ''mix'' 1024 1024) [1..2] blks"
    using clamped_sizes_are_fixed [of 3 1 5000 faulty_world "''out''" 2 "''mix''", OF h nf]
    by simp
  show ?thesis
    by (intro conjI b c h)
qed




section \<open>The invariant of the statistics\<close>






















section \<open>Flat mode overrides the structured options\<close>

lemma main_flat_creates:
  assumes "args_file_create args = Some (a, b)" and "0 < a" and "0 < b"
    and "\<not> args_stat args"
    and "io_fault w (length (io_trace w)) (Makedirs (args_directory args)) = None"
  shows "\<exists>tr w'. main args w = (Returned, w') \<and>
           io_trace w' = io_trace w @ (Makedirs (args_directory args), None) # tr"
proof -
  have "0 \<le> b" using assms(3) by simp
  from create_files_simple_run [OF this assms(5), of a]
  obtain tr st w1 where r:
      "create_files_simple (args_directory args) a b w = (Inr st, w1)"
      "io_trace w1 = io_trace w @ (Makedirs (args_directory args), None) # tr"
    by blast
  have "main args w = (Returned, print (Finished_simple (args_directory args)) w1)"
    using assms(1-4) r(1) by (simp add: main_def and_then_def say_def return_def)
  then show ?thesis
    using r(2) by (simp add: print_def)
qed

text \<open>
  C9, as stated, fails: with \<open>--file-create 5 10\<close> and \<open>-n 0\<close> on the same command line,
  a count argument is not strictly positive, yet \<open>main\<close> reports no usage error: flat mode
  overrides the structured options, which are not looked at. The run returns normally, and
  its first filesystem call has made the root directory.
\<close>

theorem main_flat_ignores_n_counterexample:
  "args_n flat_args = Some 0 \<and> fst (main flat_args quiet_world) = Returned \<and>
   hd (io_trace (snd (main flat_args quiet_world))) = (Makedirs ''out'', None)"
proof -
  have "\<exists>tr w'. main flat_args quiet_world = (Returned, w') \<and>
          io_trace w' = io_trace quiet_world @ (Makedirs (args_directory flat_args), None) # tr"
    by (rule main_flat_creates [of flat_args 5 10])
      (simp_all add: flat_args_def quiet_world_def)
  then obtain tr w' where m: "main flat_args quiet_world = (Returned, w')"
      "io_trace w' = io_trace quiet_world @ (Makedirs (args_directory flat_args), None) # tr"
    by blast
  have "io_trace quiet_world = []" "args_directory flat_args = ''out''"
      "args_n flat_args = Some 0"
    by (simp_all add: quiet_world_def flat_args_def)
  then show ?thesis
    using m by simp
qed

end
